theory Spec2Isabelle
  imports Complex_Main
begin

section \<open>The model server: data\<close>

text \<open>
  The embedded program is \<^verbatim>\<open>src/ml/model_server.py\<close>: a Flask application with the two
  routes \<^verbatim>\<open>POST /predict\<close> and \<^verbatim>\<open>GET /health\<close>.

  A Python \<^verbatim>\<open>str\<close> is the list of its characters, a \<open>char\<close> standing for a code point
  below 256.

  A Python \<^verbatim>\<open>float\<close> (and a numpy \<^verbatim>\<open>float32\<close>, which the handler only compares and copies):
  a finite value, an infinity or NaN. \<open>float_le\<close> is the comparison \<^verbatim>\<open><=\<close>, which is false
  as soon as one side is NaN.
\<close>

datatype float = Finite real | PosInf | NegInf | NaN

fun float_le :: "float \<Rightarrow> float \<Rightarrow> bool" where
  "float_le NaN y = False"
| "float_le x NaN = False"
| "float_le NegInf y = True"
| "float_le x PosInf = True"
| "float_le (Finite a) (Finite b) = (a \<le> b)"
| "float_le PosInf y = False"
| "float_le x NegInf = False"

text \<open>
  A JSON value as Python's \<^verbatim>\<open>json\<close> module hands it to the handler. An object is the list
  of the items of the resulting \<^verbatim>\<open>dict\<close>; a lookup takes the first item with the key.
\<close>

datatype json =
    JNull
  | JBool bool
  | JInt int
  | JFloat float
  | JStr string
  | JArr "json list"
  | JObj "(string \<times> json) list"

text \<open>
  The exceptions that reach the handler's \<^verbatim>\<open>except Exception\<close>. \<open>KeyError\<close> is a
  \<^verbatim>\<open>KeyError\<close> raised with one \<^verbatim>\<open>str\<close> argument, the key, and \<^verbatim>\<open>str(e)\<close> is the \<^verbatim>\<open>repr\<close> of
  that key. Every other constructor carries the text that \<^verbatim>\<open>str(e)\<close> yields; an exception of
  any other class, or with other arguments, is an \<open>OtherError\<close> with its text.
\<close>

datatype exn =
    KeyError string
  | TypeError string
  | IndexError string
  | ValueError string
  | UnicodeEncodeError string
  | OtherError string

text \<open>
  \<^verbatim>\<open>repr\<close> of a \<^verbatim>\<open>str\<close>. The quote is the apostrophe, or the double quote when the string
  holds an apostrophe and no double quote. The quote in use and the backslash are escaped
  with a backslash; tab, line feed and carriage return are written as backslash and
  \<^verbatim>\<open>t\<close>, \<^verbatim>\<open>n\<close>, \<^verbatim>\<open>r\<close>; any other character that is not printable is written as backslash,
  \<^verbatim>\<open>x\<close> and two lower-case hexadecimal digits. Below 256 the printable characters are
  32 to 126 and 161 to 255 without 173.
\<close>

definition hex_digit :: "nat \<Rightarrow> char" where
  "hex_digit d = ''0123456789abcdef'' ! d"

definition printable :: "char \<Rightarrow> bool" where
  "printable c \<longleftrightarrow>
     (32 \<le> (of_char c :: nat) \<and> (of_char c :: nat) < 127)
     \<or> (161 \<le> (of_char c :: nat) \<and> (of_char c :: nat) \<noteq> 173)"

definition repr_char :: "char \<Rightarrow> char \<Rightarrow> string" where
  "repr_char quote c =
     (if c = quote \<or> c = CHR 0x5C then [CHR 0x5C, c]
      else if c = CHR 0x09 then [CHR 0x5C, CHR ''t'']
      else if c = CHR 0x0A then [CHR 0x5C, CHR ''n'']
      else if c = CHR 0x0D then [CHR 0x5C, CHR ''r'']
      else if printable c then [c]
      else [CHR 0x5C, CHR ''x'', hex_digit (of_char c div 16), hex_digit (of_char c mod 16)])"

definition repr_key :: "string \<Rightarrow> string" where
  "repr_key k =
     (let quote = (if CHR 0x27 \<in> set k \<and> CHR 0x22 \<notin> set k then CHR 0x22 else CHR 0x27)
      in [quote] @ concat (map (repr_char quote) k) @ [quote])"

fun str_exn :: "exn \<Rightarrow> string" where
  "str_exn (KeyError k) = repr_key k"
| "str_exn (TypeError m) = m"
| "str_exn (IndexError m) = m"
| "str_exn (ValueError m) = m"
| "str_exn (UnicodeEncodeError m) = m"
| "str_exn (OtherError m) = m"

text \<open>
  A numpy array: its \<^verbatim>\<open>.shape\<close> and its elements in row-major order. The handler reads
  the shape only; the elements go to the model unread.
\<close>

record ndarray =
  shape :: "nat list"
  elems :: "float list"

text \<open>
  The module-level names the handler reads: \<^verbatim>\<open>np.array(\<dots>, dtype=np.float32)\<close>,
  \<^verbatim>\<open>model.predict(\<dots>, verbose=0)\<close> and \<^verbatim>\<open>class_labels\<close>. The first two are library calls
  that may raise. The model is an object with a state of its own (type \<open>'m\<close>), so a call
  yields its outcome and the model's next state; its result is the batch of score vectors.

  The last field is the console that \<^verbatim>\<open>print\<close> writes to: \<open>stdout_error t\<close> is the exception
  that the encoding of \<^verbatim>\<open>sys.stdout\<close> raises for the text \<open>t\<close>, if it cannot encode it.
\<close>

record 'm env =
  np_array :: "json \<Rightarrow> exn + ndarray"
  model_predict :: "'m \<Rightarrow> ndarray \<Rightarrow> (exn + float list list) \<times> 'm"
  class_labels :: "string list"
  stdout_error :: "string \<Rightarrow> exn option"

text \<open>
  What the handler writes to the console, as records rather than formatted text: line 56
  prints the prediction, line 64 the error, line 66 its traceback.
\<close>

datatype log_entry =
    PredictionLine string float
  | ErrorLine string
  | Traceback exn

record 'm state =
  model_state :: 'm
  console :: "log_entry list"

text \<open>
  The request as the handler sees it: what \<^verbatim>\<open>request.get_json()\<close> yields, the parsed body
  or the exception Flask raises for a body it cannot parse.
\<close>

record request =
  get_json :: "exn + json"

text \<open>A response is the payload given to \<^verbatim>\<open>jsonify\<close> and the status code.\<close>

type_synonym response = "json \<times> nat"

section \<open>Python and numpy primitives\<close>

text \<open>\<^verbatim>\<open>str\<close> of a non-negative \<^verbatim>\<open>int\<close>: its decimal digits.\<close>

definition digit_char :: "nat \<Rightarrow> char" where
  "digit_char d = ''0123456789'' ! d"

function show_nat :: "nat \<Rightarrow> string" where
  "show_nat n = (if n < 10 then [digit_char n] else show_nat (n div 10) @ [digit_char (n mod 10)])"
  by pat_completeness auto
termination
  by (relation "measure (\<lambda>n. n)") auto

declare show_nat.simps [simp del]

text \<open>
  \<^verbatim>\<open>str\<close> of a tuple of ints, which is what an f-string writes for a shape:
  \<^verbatim>\<open>()\<close>, \<^verbatim>\<open>(5,)\<close>, \<^verbatim>\<open>(1, 160, 160, 3)\<close>.
\<close>

fun join_comma :: "string list \<Rightarrow> string" where
  "join_comma [] = []"
| "join_comma [x] = x"
| "join_comma (x # y # ys) = x @ '', '' @ join_comma (y # ys)"

fun show_tuple :: "nat list \<Rightarrow> string" where
  "show_tuple [] = ''()''"
| "show_tuple [n] = ''('' @ show_nat n @ '',)''"
| "show_tuple ns = ''('' @ join_comma (map show_nat ns) @ '')''"

text \<open>
  \<^verbatim>\<open>data['image']\<close>: a \<^verbatim>\<open>dict\<close> without the key raises \<^verbatim>\<open>KeyError\<close>; every other JSON value
  raises \<^verbatim>\<open>TypeError\<close> when subscripted with a string. The texts are CPython's, which
  write a type name between apostrophes.
\<close>

definition quoted :: "string \<Rightarrow> string" where
  "quoted name = [CHR 0x27] @ name @ [CHR 0x27]"

fun getitem_key :: "json \<Rightarrow> string \<Rightarrow> exn + json" where
  "getitem_key (JObj kvs) k = (case map_of kvs k of None \<Rightarrow> Inl (KeyError k) | Some v \<Rightarrow> Inr v)"
| "getitem_key JNull k = Inl (TypeError (quoted ''NoneType'' @ '' object is not subscriptable''))"
| "getitem_key (JBool b) k = Inl (TypeError (quoted ''bool'' @ '' object is not subscriptable''))"
| "getitem_key (JInt i) k = Inl (TypeError (quoted ''int'' @ '' object is not subscriptable''))"
| "getitem_key (JFloat r) k = Inl (TypeError (quoted ''float'' @ '' object is not subscriptable''))"
| "getitem_key (JStr s) k = Inl (TypeError (''string indices must be integers, not '' @ quoted ''str''))"
| "getitem_key (JArr xs) k = Inl (TypeError ''list indices must be integers or slices, not str'')"

text \<open>\<^verbatim>\<open>a[i]\<close> for an index \<open>i \<ge> 0\<close> along the first axis: out of range raises \<^verbatim>\<open>IndexError\<close>.\<close>

definition getitem_index :: "'a list \<Rightarrow> nat \<Rightarrow> exn + 'a" where
  "getitem_index xs i =
     (if i < length xs then Inr (xs ! i)
      else Inl (IndexError (''index '' @ show_nat i @ '' is out of bounds for axis 0 with size ''
                            @ show_nat (length xs))))"

text \<open>\<^verbatim>\<open>np.expand_dims(a, axis=0)\<close>: a new leading axis of size 1, the elements as they are.\<close>

definition expand_dims0 :: "ndarray \<Rightarrow> ndarray" where
  "expand_dims0 a = a\<lparr>shape := 1 # shape a\<rparr>"

text \<open>
  \<^verbatim>\<open>np.argmax\<close> of a vector of floats, as numpy's loop runs: a NaN in first place is the
  answer; otherwise one pass from the left keeps the position of the best score so far,
  moves to a score \<open>x\<close> when \<^verbatim>\<open>x <= best\<close> is false, and stops at the first NaN it moves to.
  An empty vector raises \<^verbatim>\<open>ValueError\<close>.
\<close>

fun argmax_scan :: "float list \<Rightarrow> nat \<Rightarrow> nat \<Rightarrow> float \<Rightarrow> nat" where
  "argmax_scan [] i best_idx best = best_idx"
| "argmax_scan (x # xs) i best_idx best =
     (if \<not> float_le x best
      then (if x = NaN then i else argmax_scan xs (Suc i) i x)
      else argmax_scan xs (Suc i) best_idx best)"

fun np_argmax :: "float list \<Rightarrow> exn + nat" where
  "np_argmax [] = Inl (ValueError ''attempt to get argmax of an empty sequence'')"
| "np_argmax (x # xs) = Inr (if x = NaN then 0 else argmax_scan xs 1 0 x)"

text \<open>
  \<^verbatim>\<open>print\<close> of a line: the text is encoded for \<^verbatim>\<open>sys.stdout\<close> and written. The fixed parts of
  the two lines the handler prints are ASCII and so is a formatted float, so the part that
  decides is the label of line 56 and the message of line 64: a text within ASCII is always
  written, any other text is written unless the console's encoding raises for it. When it
  raises, nothing is written.
\<close>

definition is_ascii :: "char \<Rightarrow> bool" where
  "is_ascii c \<longleftrightarrow> (of_char c :: nat) < 128"

definition print_error :: "'m env \<Rightarrow> string \<Rightarrow> exn option" where
  "print_error env text = (if list_all is_ascii text then None else stdout_error env text)"

fun entry_text :: "log_entry \<Rightarrow> string" where
  "entry_text (PredictionLine predicted_class confidence) = predicted_class"
| "entry_text (ErrorLine message) = message"
| "entry_text (Traceback e) = []"

definition print_stdout :: "'m env \<Rightarrow> 'm state \<Rightarrow> log_entry \<Rightarrow> exn option \<times> 'm state" where
  "print_stdout env s entry =
     (case print_error env (entry_text entry) of
        Some e \<Rightarrow> (Some e, s)
      | None \<Rightarrow> (None, s\<lparr>console := console s @ [entry]\<rparr>))"

section \<open>The handlers\<close>

definition expected_shape :: "nat list" where
  "expected_shape = [1, 160, 160, 3]"

text \<open>Lines 35 and 36: a 3-dimensional array gets a leading batch axis.\<close>

definition normalize_tensor :: "ndarray \<Rightarrow> ndarray" where
  "normalize_tensor image_data =
     (if length (shape image_data) = 3 then expand_dims0 image_data else image_data)"

text \<open>Line 41: the payload and status of a shape mismatch.\<close>

definition invalid_shape_response :: "nat list \<Rightarrow> response" where
  "invalid_shape_response actual =
     (JObj [(''error'', JStr (''Invalid input shape. Expected '' @ show_tuple expected_shape
                               @ '', got '' @ show_tuple actual))], 400)"

text \<open>Lines 50 to 53: the label of an index, or the marker for an index past the table.\<close>

definition resolve_label :: "string list \<Rightarrow> nat \<Rightarrow> string" where
  "resolve_label labels predicted_idx =
     (if predicted_idx \<ge> length labels then ''UNKNOWN_CLASS_'' @ show_nat predicted_idx
      else labels ! predicted_idx)"

text \<open>
  Lines 47 to 61, after the model has returned: the top index, its score, its label, the
  console line and the success response. The \<^verbatim>\<open>print\<close> of line 56 is inside the \<^verbatim>\<open>try\<close>: when
  it raises, the exception goes to line 63 like any other.
  \<^verbatim>\<open>return jsonify(\<dots>)\<close> without a status is 200.
\<close>

definition respond :: "'m env \<Rightarrow> 'm state \<Rightarrow> float list list \<Rightarrow> (exn + response) \<times> 'm state" where
  "respond env s predictions =
     (case getitem_index predictions 0 of
        Inl e \<Rightarrow> (Inl e, s)
      | Inr row \<Rightarrow>
          (case np_argmax row of
             Inl e \<Rightarrow> (Inl e, s)
           | Inr predicted_idx \<Rightarrow>
               (case getitem_index row predicted_idx of
                  Inl e \<Rightarrow> (Inl e, s)
                | Inr confidence \<Rightarrow>
                    (let predicted_class = resolve_label (class_labels env) predicted_idx
                     in (case print_stdout env s (PredictionLine predicted_class confidence) of
                           (Some e, s') \<Rightarrow> (Inl e, s')
                         | (None, s') \<Rightarrow>
                             (Inr (JObj [(''prediction'', JStr predicted_class),
                                         (''confidence'', JFloat confidence)], 200), s'))))))"

text \<open>
  Lines 31 and 32: the parsed body, its \<^verbatim>\<open>image\<close> field, and the array numpy makes of it.
\<close>

definition image_array :: "'m env \<Rightarrow> request \<Rightarrow> exn + ndarray" where
  "image_array env req =
     (case get_json req of
        Inl e \<Rightarrow> Inl e
      | Inr data \<Rightarrow>
          (case getitem_key data ''image'' of
             Inl e \<Rightarrow> Inl e
           | Inr img \<Rightarrow> np_array env img))"

text \<open>Lines 31 to 61: the body of the \<^verbatim>\<open>try\<close>; \<open>Inl\<close> is an exception on its way to line 63.\<close>

definition predict_try :: "'m env \<Rightarrow> 'm state \<Rightarrow> request \<Rightarrow> (exn + response) \<times> 'm state" where
  "predict_try env s req =
     (case image_array env req of
        Inl e \<Rightarrow> (Inl e, s)
      | Inr arr \<Rightarrow>
          (let image_data = normalize_tensor arr in
           if shape image_data \<noteq> expected_shape
           then (Inr (invalid_shape_response (shape image_data)), s)
           else
             (case model_predict env (model_state s) image_data of
                (Inl e, m) \<Rightarrow> (Inl e, s\<lparr>model_state := m\<rparr>)
              | (Inr predictions, m) \<Rightarrow> respond env (s\<lparr>model_state := m\<rparr>) predictions)))"

text \<open>
  The whole handler. Lines 63 to 67 turn an exception of the \<^verbatim>\<open>try\<close> into a 500 with
  \<^verbatim>\<open>str(e)\<close> as the message, after printing it. The \<^verbatim>\<open>print\<close> of line 64 stands in the
  \<^verbatim>\<open>except\<close> block, outside any \<^verbatim>\<open>try\<close>: when it raises, the exception leaves the handler,
  which is the result \<open>Inl\<close>, and the handler returns no payload. The traceback of line 66
  goes to \<^verbatim>\<open>sys.stderr\<close>, which escapes what it cannot encode.
\<close>

definition predict :: "'m env \<Rightarrow> 'm state \<Rightarrow> request \<Rightarrow> (exn + response) \<times> 'm state" where
  "predict env s req =
     (case predict_try env s req of
        (Inr r, s') \<Rightarrow> (Inr r, s')
      | (Inl e, s') \<Rightarrow>
          (case print_stdout env s' (ErrorLine (str_exn e)) of
             (Some e', s'') \<Rightarrow> (Inl e', s'')
           | (None, s'') \<Rightarrow>
               (Inr (JObj [(''error'', JStr (str_exn e))], 500),
                s''\<lparr>console := console s'' @ [Traceback e]\<rparr>)))"

text \<open>Lines 69 to 71.\<close>

definition health :: "'m state \<Rightarrow> (exn + response) \<times> 'm state" where
  "health s = (Inr (JObj [(''status'', JStr ''ok''), (''model_loaded'', JBool True)], 200), s)"

text \<open>The two routes of the application, and a run of the server over a list of calls.\<close>

datatype call = PostPredict request | GetHealth

fun handle :: "'m env \<Rightarrow> 'm state \<Rightarrow> call \<Rightarrow> (exn + response) \<times> 'm state" where
  "handle env s (PostPredict req) = predict env s req"
| "handle env s GetHealth = health s"

fun serve :: "'m env \<Rightarrow> 'm state \<Rightarrow> call list \<Rightarrow> 'm state" where
  "serve env s [] = s"
| "serve env s (c # cs) = serve env (snd (handle env s c)) cs"

section \<open>An example environment\<close>

text \<open>
  A stand-in for \<^verbatim>\<open>np.array\<close> on nested lists of numbers, for the examples below: a number
  is a 0-dimensional array, a list of arrays of one shape is an array with one more axis,
  and anything else raises.
\<close>

fun collect :: "(exn + 'a) list \<Rightarrow> exn + 'a list" where
  "collect [] = Inr []"
| "collect (r # rs) =
     (case r of
        Inl e \<Rightarrow> Inl e
      | Inr a \<Rightarrow> (case collect rs of Inl e \<Rightarrow> Inl e | Inr as \<Rightarrow> Inr (a # as)))"

fun nested_array :: "json \<Rightarrow> exn + ndarray" where
  "nested_array (JInt i) = Inr \<lparr>shape = [], elems = [Finite (of_int i)]\<rparr>"
| "nested_array (JFloat r) = Inr \<lparr>shape = [], elems = [r]\<rparr>"
| "nested_array (JArr xs) =
     (case collect (map nested_array xs) of
        Inl e \<Rightarrow> Inl e
      | Inr arrs \<Rightarrow>
          (case arrs of
             [] \<Rightarrow> Inr \<lparr>shape = [0], elems = []\<rparr>
           | a # _ \<Rightarrow>
               if list_all (\<lambda>b. shape b = shape a) arrs
               then Inr \<lparr>shape = length arrs # shape a, elems = concat (map elems arrs)\<rparr>
               else Inl (ValueError ''inhomogeneous shape'')))"
| "nested_array JNull = Inl (TypeError ''not a number'')"
| "nested_array (JBool b) = Inl (TypeError ''not a number'')"
| "nested_array (JStr s) = Inl (TypeError ''not a number'')"
| "nested_array (JObj kvs) = Inl (TypeError ''not a number'')"

text \<open>The all-zero nested list of a given shape.\<close>

fun zeros :: "nat list \<Rightarrow> json" where
  "zeros [] = JFloat (Finite 0)"
| "zeros (n # ns) = JArr (replicate n (zeros ns))"

declare zeros.simps [simp del]

text \<open>
  An environment with the given label table whose model answers every call with the same
  outcome and counts its calls, and whose console can encode every text (as UTF-8 does for
  the characters of this model).
\<close>

definition example_env :: "string list \<Rightarrow> (exn + float list list) \<Rightarrow> nat env" where
  "example_env labels outcome =
     \<lparr>np_array = nested_array, model_predict = (\<lambda>m x. (outcome, Suc m)), class_labels = labels,
      stdout_error = (\<lambda>t. None)\<rparr>"

text \<open>
  A console whose encoding is ASCII: it raises for every text outside ASCII, which are the
  only texts it is asked about.
\<close>

definition ascii_console :: "string \<Rightarrow> exn option" where
  "ascii_console t = Some (UnicodeEncodeError ''ordinal not in range(128)'')"

definition initial_state :: "nat state" where
  "initial_state = \<lparr>model_state = 0, console = []\<rparr>"

definition image_request :: "json \<Rightarrow> request" where
  "image_request img = \<lparr>get_json = Inr (JObj [(''image'', img)])\<rparr>"

section \<open>Notions used in the statements\<close>

text \<open>A probability vector: every score lies between 0 and 1, and the scores sum to 1.\<close>

definition is_prob_vector :: "real list \<Rightarrow> bool" where
  "is_prob_vector v \<longleftrightarrow> list_all (\<lambda>x. 0 \<le> x \<and> x \<le> 1) v \<and> sum_list v = 1"

text \<open>A parsed body has an \<^verbatim>\<open>image\<close> field when it is an object with that key.\<close>

fun has_image :: "json \<Rightarrow> bool" where
  "has_image (JObj kvs) = (''image'' \<in> set (map fst kvs))"
| "has_image _ = False"

text \<open>The field names of a payload, in order.\<close>

fun field_names :: "json \<Rightarrow> string list" where
  "field_names (JObj kvs) = map fst kvs"
| "field_names _ = []"

text \<open>The number that a string of decimal digits writes.\<close>

definition digit_value :: "char \<Rightarrow> nat" where
  "digit_value c = of_char c - 48"

definition read_nat :: "string \<Rightarrow> nat" where
  "read_nat ds = foldl (\<lambda>a c. 10 * a + digit_value c) 0 ds"

section \<open>Facts about the primitives\<close>


lemma float_le_not_NaN: "float_le x y \<Longrightarrow> x \<noteq> NaN \<and> y \<noteq> NaN"
  by (cases x; cases y) auto

lemma float_le_total: "x \<noteq> NaN \<Longrightarrow> y \<noteq> NaN \<Longrightarrow> float_le x y \<or> float_le y x"
  by (cases x; cases y) auto

lemma float_le_trans: "float_le x y \<Longrightarrow> float_le y z \<Longrightarrow> float_le x z"
  by (cases x; cases y; cases z) auto

lemma float_le_refl: "x \<noteq> NaN \<Longrightarrow> float_le x x"
  by (cases x) auto

lemma argmax_scan_inv:
  assumes "NaN \<notin> set pre" "NaN \<notin> set xs"
    and "length pre = i" "b < i" "pre ! b = bv"
    and "\<forall>j<i. float_le (pre ! j) bv" "\<forall>j<b. \<not> float_le bv (pre ! j)"
  shows "argmax_scan xs i b bv < length (pre @ xs) \<and>
         (\<forall>j<length (pre @ xs). float_le ((pre @ xs) ! j) ((pre @ xs) ! argmax_scan xs i b bv)) \<and>
         (\<forall>j<argmax_scan xs i b bv. \<not> float_le ((pre @ xs) ! argmax_scan xs i b bv) ((pre @ xs) ! j))"
  using assms
proof (induction xs arbitrary: pre i b bv)
  case Nil
  then show ?case by auto
next
  case (Cons x xs)
  have x: "x \<noteq> NaN" and xs: "NaN \<notin> set xs"
    using Cons.prems(2) by auto
  have bv: "bv \<noteq> NaN"
    using Cons.prems(1,3,4,5) by (metis nth_mem order_less_trans less_irrefl linorder_neqE_nat)
  have pre': "NaN \<notin> set (pre @ [x])"
    using Cons.prems(1) x by auto
  show ?case
  proof (cases "float_le x bv")
    case False
    then have up: "float_le bv x"
      using float_le_total [OF x bv] by simp
    have "argmax_scan xs (Suc i) i x < length ((pre @ [x]) @ xs) \<and>
         (\<forall>j<length ((pre @ [x]) @ xs).
            float_le (((pre @ [x]) @ xs) ! j) (((pre @ [x]) @ xs) ! argmax_scan xs (Suc i) i x)) \<and>
         (\<forall>j<argmax_scan xs (Suc i) i x.
            \<not> float_le (((pre @ [x]) @ xs) ! argmax_scan xs (Suc i) i x) (((pre @ [x]) @ xs) ! j))"
    proof (rule Cons.IH [OF pre' xs])
      show "length (pre @ [x]) = Suc i" using Cons.prems by simp
      show "i < Suc i" by simp
      show "(pre @ [x]) ! i = x" using Cons.prems by (simp add: nth_append)
      show "\<forall>j<Suc i. float_le ((pre @ [x]) ! j) x"
      proof (intro allI impI)
        fix j assume "j < Suc i"
        then consider "j < i" | "j = i" by linarith
        then show "float_le ((pre @ [x]) ! j) x"
        proof cases
          case 1
          then have "float_le (pre ! j) bv" using Cons.prems(6) by simp
          then have "float_le (pre ! j) x" using up by (rule float_le_trans)
          then show ?thesis using 1 Cons.prems(3) by (simp add: nth_append)
        next
          case 2
          then show ?thesis using Cons.prems(3) x by (simp add: nth_append float_le_refl)
        qed
      qed
      show "\<forall>j<i. \<not> float_le x ((pre @ [x]) ! j)"
      proof (intro allI impI notI)
        fix j assume j: "j < i" and le: "float_le x ((pre @ [x]) ! j)"
        then have "float_le x (pre ! j)" using Cons.prems(3) by (simp add: nth_append)
        moreover have "float_le (pre ! j) bv" using Cons.prems(6) j by simp
        ultimately have "float_le x bv" by (rule float_le_trans)
        with False show False by simp
      qed
    qed
    with False x show ?thesis by simp
  next
    case True
    have "argmax_scan xs (Suc i) b bv < length ((pre @ [x]) @ xs) \<and>
         (\<forall>j<length ((pre @ [x]) @ xs).
            float_le (((pre @ [x]) @ xs) ! j) (((pre @ [x]) @ xs) ! argmax_scan xs (Suc i) b bv)) \<and>
         (\<forall>j<argmax_scan xs (Suc i) b bv.
            \<not> float_le (((pre @ [x]) @ xs) ! argmax_scan xs (Suc i) b bv) (((pre @ [x]) @ xs) ! j))"
    proof (rule Cons.IH [OF pre' xs])
      show "length (pre @ [x]) = Suc i" using Cons.prems by simp
      show "b < Suc i" using Cons.prems by simp
      show "(pre @ [x]) ! b = bv" using Cons.prems by (simp add: nth_append)
      show "\<forall>j<Suc i. float_le ((pre @ [x]) ! j) bv"
        using Cons.prems True by (auto simp: nth_append less_Suc_eq)
      show "\<forall>j<b. \<not> float_le bv ((pre @ [x]) ! j)"
        using Cons.prems by (auto simp: nth_append)
    qed
    with True show ?thesis by simp
  qed
qed

lemma np_argmax_first_maximum:
  assumes "row \<noteq> []" "NaN \<notin> set row"
  shows "\<exists>i. np_argmax row = Inr i \<and> i < length row \<and>
             (\<forall>j<length row. float_le (row ! j) (row ! i)) \<and>
             (\<forall>j<i. \<not> float_le (row ! i) (row ! j))"
proof -
  obtain x xs where row: "row = x # xs" using assms(1) by (cases row) auto
  have x: "x \<noteq> NaN" and xs: "NaN \<notin> set xs" using assms(2) row by auto
  have "argmax_scan xs 1 0 x < length ([x] @ xs) \<and>
         (\<forall>j<length ([x] @ xs). float_le (([x] @ xs) ! j) (([x] @ xs) ! argmax_scan xs 1 0 x)) \<and>
         (\<forall>j<argmax_scan xs 1 0 x. \<not> float_le (([x] @ xs) ! argmax_scan xs 1 0 x) (([x] @ xs) ! j))"
    by (rule argmax_scan_inv) (use x xs in \<open>auto simp: float_le_refl\<close>)
  then show ?thesis using x by (simp add: row)
qed

lemma argmax_scan_first_NaN:
  assumes "NaN \<in> set xs" "best \<noteq> NaN"
  shows "\<exists>k. argmax_scan xs i b best = i + k \<and> k < length xs \<and> xs ! k = NaN \<and> (\<forall>j<k. xs ! j \<noteq> NaN)"
  using assms
proof (induction xs arbitrary: i b best)
  case Nil
  then show ?case by simp
next
  case (Cons x xs)
  show ?case
  proof (cases "x = NaN")
    case True
    then show ?thesis by (intro exI [of _ 0]) simp
  next
    case False
    with Cons.prems have in_xs: "NaN \<in> set xs" by simp
    obtain b' best' where step: "argmax_scan (x # xs) i b best = argmax_scan xs (Suc i) b' best'"
      and best': "best' \<noteq> NaN"
      using False Cons.prems(2) by (cases "float_le x best") auto
    obtain k where k: "argmax_scan xs (Suc i) b' best' = Suc i + k" "k < length xs" "xs ! k = NaN"
      "\<forall>j<k. xs ! j \<noteq> NaN"
      using Cons.IH [OF in_xs best'] by blast
    show ?thesis
      using step k False by (intro exI [of _ "Suc k"]) (auto simp: less_Suc_eq_0_disj)
  qed
qed

lemma np_argmax_first_NaN:
  assumes "NaN \<in> set row"
  shows "\<exists>i. np_argmax row = Inr i \<and> i < length row \<and> row ! i = NaN \<and> (\<forall>j<i. row ! j \<noteq> NaN)"
proof -
  obtain x xs where row: "row = x # xs" using assms by (cases row) auto
  show ?thesis
  proof (cases "x = NaN")
    case True
    then show ?thesis by (simp add: row)
  next
    case False
    with assms row have "NaN \<in> set xs" by simp
    from argmax_scan_first_NaN [OF this False, of 1 0]
    obtain k where "argmax_scan xs 1 0 x = 1 + k" "k < length xs" "xs ! k = NaN" "\<forall>j<k. xs ! j \<noteq> NaN"
      by blast
    then show ?thesis
      using False by (intro exI [of _ "Suc k"]) (auto simp: row less_Suc_eq_0_disj)
  qed
qed

lemma np_argmax_in_range: "np_argmax row = Inr i \<Longrightarrow> i < length row"
proof (cases "NaN \<in> set row")
  case True
  assume "np_argmax row = Inr i"
  with np_argmax_first_NaN [OF True] show ?thesis by auto
next
  case False
  assume a: "np_argmax row = Inr i"
  then have "row \<noteq> []" by auto
  from np_argmax_first_maximum [OF this False] a show ?thesis by auto
qed

lemma digit_char_ascii: "d < 10 \<Longrightarrow> is_ascii (digit_char d)"
  by (simp add: digit_char_def is_ascii_def nth_Cons' )

lemma digit_value_digit_char: "d < 10 \<Longrightarrow> digit_value (digit_char d) = d"
  by (simp add: digit_char_def digit_value_def nth_Cons')

lemma show_nat_ascii: "list_all is_ascii (show_nat n)"
proof (induction n rule: show_nat.induct)
  case (1 n)
  show ?case
  proof (cases "n < 10")
    case True
    then show ?thesis by (subst show_nat.simps) (simp add: digit_char_ascii)
  next
    case False
    with 1 show ?thesis by (subst show_nat.simps) (simp add: digit_char_ascii)
  qed
qed

lemma read_nat_snoc: "read_nat (ds @ [c]) = 10 * read_nat ds + digit_value c"
  by (simp add: read_nat_def)

lemma read_nat_show_nat: "read_nat (show_nat n) = n"
proof (induction n rule: show_nat.induct)
  case (1 n)
  show ?case
  proof (cases "n < 10")
    case True
    then show ?thesis
      by (subst show_nat.simps) (simp add: read_nat_def digit_value_digit_char)
  next
    case False
    with 1 show ?thesis
      by (subst show_nat.simps) (simp add: read_nat_snoc digit_value_digit_char)
  qed
qed

lemma show_nat_inj: "show_nat m = show_nat n \<Longrightarrow> m = n"
  by (metis read_nat_show_nat)

lemma repr_key_image: "repr_key ''image'' = [CHR 0x27] @ ''image'' @ [CHR 0x27]"
  by (simp add: repr_key_def repr_char_def printable_def Let_def)

lemma getitem_key_image_ascii:
  assumes "getitem_key data ''image'' = Inl e"
  shows "list_all is_ascii (str_exn e)"
  using assms by (cases data) (auto simp: repr_key_image is_ascii_def quoted_def split: option.splits)

section \<open>Facts about the handler\<close>

lemma print_error_ascii: "list_all is_ascii text \<Longrightarrow> print_error env text = None"
  by (simp add: print_error_def)

lemma predict_invalid_shape:
  assumes "image_array env req = Inr a" "shape (normalize_tensor a) \<noteq> expected_shape"
  shows "predict env s req = (Inr (invalid_shape_response (shape (normalize_tensor a))), s)"
  using assms by (simp add: predict_def predict_try_def Let_def)

lemma predict_model_error:
  assumes "image_array env req = Inr a" "shape (normalize_tensor a) = expected_shape"
    and "model_predict env (model_state s) (normalize_tensor a) = (Inl e, m)"
    and "print_error env (str_exn e) = None"
  shows "predict env s req =
           (Inr (JObj [(''error'', JStr (str_exn e))], 500),
            s\<lparr>model_state := m, console := console s @ [ErrorLine (str_exn e), Traceback e]\<rparr>)"
  using assms by (simp add: predict_def predict_try_def print_stdout_def Let_def)

lemma predict_model_error_unprinted:
  assumes "image_array env req = Inr a" "shape (normalize_tensor a) = expected_shape"
    and "model_predict env (model_state s) (normalize_tensor a) = (Inl e, m)"
    and "print_error env (str_exn e) = Some e'"
  shows "predict env s req = (Inl e', s\<lparr>model_state := m\<rparr>)"
  using assms by (simp add: predict_def predict_try_def print_stdout_def Let_def)

lemma respond_success:
  assumes "np_argmax row = Inr i"
    and "print_error env (resolve_label (class_labels env) i) = None"
  shows "respond env s (row # rest) =
           (Inr (JObj [(''prediction'', JStr (resolve_label (class_labels env) i)),
                       (''confidence'', JFloat (row ! i))], 200),
            s\<lparr>console := console s @ [PredictionLine (resolve_label (class_labels env) i) (row ! i)]\<rparr>)"
  using assms np_argmax_in_range [OF assms(1)]
  by (simp add: respond_def getitem_index_def print_stdout_def Let_def)

lemma predict_success:
  assumes "image_array env req = Inr a" "shape (normalize_tensor a) = expected_shape"
    and "model_predict env (model_state s) (normalize_tensor a) = (Inr (row # rest), m)"
    and "np_argmax row = Inr i"
    and "print_error env (resolve_label (class_labels env) i) = None"
  shows "predict env s req =
           (Inr (JObj [(''prediction'', JStr (resolve_label (class_labels env) i)),
                       (''confidence'', JFloat (row ! i))], 200),
            s\<lparr>model_state := m,
              console := console s @ [PredictionLine (resolve_label (class_labels env) i) (row ! i)]\<rparr>)"
  using assms by (simp add: predict_def predict_try_def Let_def respond_success)

lemma predict_no_image:
  assumes "image_array env req = Inl e" "print_error env (str_exn e) = None"
  shows "predict env s req =
           (Inr (JObj [(''error'', JStr (str_exn e))], 500),
            s\<lparr>console := console s @ [ErrorLine (str_exn e), Traceback e]\<rparr>)"
  using assms by (simp add: predict_def predict_try_def print_stdout_def)

lemma normalize_expected:
  "shape a = [1, 160, 160, 3] \<or> shape a = [160, 160, 3] \<Longrightarrow> shape (normalize_tensor a) = expected_shape"
  by (auto simp: normalize_tensor_def expand_dims0_def expected_shape_def)

lemma resolve_label_nonempty:
  assumes "\<forall>l\<in>set labels. l \<noteq> []"
  shows "resolve_label labels i \<noteq> []"
  using assms by (simp add: resolve_label_def)

lemma resolve_label_printed:
  assumes "\<forall>l\<in>set (class_labels env). print_error env l = None"
  shows "print_error env (resolve_label (class_labels env) i) = None"
proof (cases "i \<ge> length (class_labels env)")
  case True
  have "list_all is_ascii (''UNKNOWN_CLASS_'' @ show_nat i)"
    using show_nat_ascii [of i] by (simp add: is_ascii_def)
  with True show ?thesis by (simp add: resolve_label_def print_error_ascii)
next
  case False
  with assms show ?thesis by (simp add: resolve_label_def)
qed

lemma getitem_key_no_image:
  assumes "\<not> has_image data"
  shows "\<exists>e. getitem_key data ''image'' = Inl e"
proof (cases data)
  case (JObj kvs)
  with assms have "map_of kvs ''image'' = None"
    by (simp add: map_of_eq_None_iff)
  with JObj show ?thesis by simp
qed simp_all

lemma predict_payload_fields:
  assumes "fst (predict env s req) = Inr (payload, status)"
  shows "field_names payload = [''prediction'', ''confidence''] \<or> field_names payload = [''error'']"
  using assms
  by (auto simp: predict_def predict_try_def respond_def print_stdout_def invalid_shape_response_def
        Let_def split: sum.splits prod.splits option.splits if_splits)


lemma print_stdout_state_free: "fst (print_stdout env s entry) = fst (print_stdout env s' entry)"
  by (simp add: print_stdout_def split: option.splits)

lemma respond_response_state_free: "fst (respond env s predictions) = fst (respond env s' predictions)"
  by (simp add: respond_def print_stdout_def Let_def split: sum.splits option.splits)

lemma predict_result:
  "fst (predict env s req) =
     (case fst (predict_try env s req) of
        Inr r \<Rightarrow> Inr r
      | Inl e \<Rightarrow>
          (case print_error env (str_exn e) of
             Some e' \<Rightarrow> Inl e'
           | None \<Rightarrow> Inr (JObj [(''error'', JStr (str_exn e))], 500)))"
  by (simp add: predict_def print_stdout_def split: prod.splits sum.splits option.splits)

lemma predict_try_result:
  "fst (predict_try env s req) =
     (case image_array env req of
        Inl e \<Rightarrow> Inl e
      | Inr arr \<Rightarrow>
          if shape (normalize_tensor arr) \<noteq> expected_shape
          then Inr (invalid_shape_response (shape (normalize_tensor arr)))
          else
            (case fst (model_predict env (model_state s) (normalize_tensor arr)) of
               Inl e \<Rightarrow> Inl e
             | Inr predictions \<Rightarrow> fst (respond env s predictions)))"
  using respond_response_state_free [of env _ _ s]
  by (simp add: predict_try_def Let_def split: prod.splits sum.splits)

lemma predict_response_tensor_only:
  assumes det: "\<forall>m m' x. fst (model_predict env m x) = fst (model_predict env m' x)"
    and same_tensor: "image_array env req' = image_array env req"
  shows "fst (predict env s' req') = fst (predict env s req)"
proof -
  have "fst (predict_try env s' req') = fst (predict_try env s req)"
    unfolding predict_try_result same_tensor
    using det [rule_format, of "model_state s'" _ "model_state s"]
      respond_response_state_free [of env s' _ s]
    by (simp split: sum.splits)
  then show ?thesis
    by (simp add: predict_result)
qed

section \<open>Facts about the example environment\<close>

lemma collect_replicate: "collect (replicate n (Inr a)) = Inr (replicate n a)"
  by (induction n) auto

lemma concat_replicate_zeros: "concat (replicate n (replicate k x)) = replicate (n * k) x"
  by (induction n) (auto simp: replicate_add)

lemma nested_array_replicate:
  assumes "nested_array z = Inr a"
  shows "nested_array (JArr (replicate (Suc k) z)) =
           Inr \<lparr>shape = Suc k # shape a, elems = concat (replicate (Suc k) (elems a))\<rparr>"
proof -
  have "collect (map nested_array (replicate (Suc k) z)) = Inr (replicate (Suc k) a)"
    unfolding map_replicate assms by (rule collect_replicate)
  moreover have "list_all (\<lambda>b. shape b = shape a) (replicate (Suc k) a)"
    by (simp add: list_all_iff)
  ultimately show ?thesis
    by (simp add: map_replicate del: replicate.simps) (simp add: map_replicate)
qed

lemma nested_array_zeros:
  "0 \<notin> set ns \<Longrightarrow>
   nested_array (zeros ns) = Inr \<lparr>shape = ns, elems = replicate (prod_list ns) (Finite 0)\<rparr>"
proof (induction ns)
  case Nil
  then show ?case by (simp add: zeros.simps)
next
  case (Cons n ns)
  then obtain k where n: "n = Suc k" by (cases n) auto
  from Cons have IH:
    "nested_array (zeros ns) = Inr \<lparr>shape = ns, elems = replicate (prod_list ns) (Finite 0)\<rparr>"
    by simp
  have "nested_array (zeros (n # ns)) = nested_array (JArr (replicate (Suc k) (zeros ns)))"
    by (simp add: n zeros.simps)
  also have "\<dots> = Inr \<lparr>shape = Suc k # ns,
                         elems = concat (replicate (Suc k) (replicate (prod_list ns) (Finite 0)))\<rparr>"
    using nested_array_replicate [OF IH, of k] by simp
  also have "concat (replicate (Suc k) (replicate (prod_list ns) (Finite 0))) =
               replicate (prod_list (n # ns)) (Finite 0)"
    unfolding concat_replicate_zeros by (simp add: n)
  finally show ?case by (simp add: n)
qed

lemma image_array_zeros:
  assumes "0 \<notin> set ns"
  shows "\<exists>a. image_array (example_env labels outcome) (image_request (zeros ns)) = Inr a \<and> shape a = ns"
  using nested_array_zeros [OF assms]
  by (simp add: image_array_def example_env_def image_request_def)

lemma example_env_prints: "print_error (example_env labels outcome) text = None"
  by (simp add: print_error_def example_env_def)

lemma image_array_console_free: "image_array (env\<lparr>stdout_error := c\<rparr>) req = image_array env req"
  by (simp add: image_array_def cong: sum.case_cong)

section \<open>The claims\<close>

text \<open>
  Claim C1, as stated: every request whose \<^verbatim>\<open>image\<close> is a numeric array of shape
  (1,160,160,3) or (160,160,3) gets a 200 response whose \<^verbatim>\<open>confidence\<close> lies in [0,1] and
  whose \<^verbatim>\<open>prediction\<close> is a non-empty string, when the model returns a probability vector.
  It fails for a label table that holds an empty label: line 53 returns the label as it is.
  Here the image is the all-zero (160,160,3) array, the model returns (0.1, 0.7, 0.2) and the
  label of index 1 is the empty string.
\<close>

theorem C1_counterexample:
  "is_prob_vector [0.1, 0.7, 0.2] \<and>
   fst (predict (example_env [''A'', '''', ''C''] (Inr [map Finite [0.1, 0.7, 0.2]])) initial_state
          (image_request (zeros [160, 160, 3])))
     = Inr (JObj [(''prediction'', JStr ''''), (''confidence'', JFloat (Finite 0.7))], 200)"
proof -
  let ?env = "example_env [''A'', '''', ''C''] (Inr [map Finite [0.1, 0.7, 0.2]])"
  obtain a where img: "image_array ?env (image_request (zeros [160, 160, 3])) = Inr a"
    and shp: "shape a = [160, 160, 3]"
    using image_array_zeros [of "[160, 160, 3]"] by auto
  have ok: "shape (normalize_tensor a) = expected_shape"
    using shp by (simp add: normalize_expected)
  have mdl: "model_predict ?env (model_state initial_state) (normalize_tensor a)
               = (Inr (map Finite [0.1, 0.7, 0.2] # []), 1)"
    by (simp add: example_env_def initial_state_def)
  have top: "np_argmax (map Finite [0.1, 0.7, 0.2]) = Inr 1"
    by simp
  have lbl: "resolve_label (class_labels ?env) 1 = ''''"
    by (simp add: resolve_label_def example_env_def)
  have prt: "print_error ?env (resolve_label (class_labels ?env) 1) = None"
    by (rule example_env_prints)
  have pv: "is_prob_vector [0.1, 0.7, 0.2]"
    by (simp add: is_prob_vector_def)
  show ?thesis
    using predict_success [OF img ok mdl top prt, unfolded lbl] pv by simp
qed

text \<open>
  Claim C1, amended: under the same assumptions, when no label of the label table is the
  empty string and the console can encode every label of the table, the response is a 200
  with a \<^verbatim>\<open>confidence\<close> in [0,1] and a non-empty \<^verbatim>\<open>prediction\<close>. The model's answer is the
  vector of the finite scores \<open>ps\<close>.
\<close>

theorem C1_predict_success:
  assumes "image_array env req = Inr a"
    and "shape a = [1, 160, 160, 3] \<or> shape a = [160, 160, 3]"
    and "model_predict env (model_state s) (normalize_tensor a) = (Inr (map Finite ps # rest), m)"
    and "is_prob_vector ps"
    and "\<forall>l\<in>set (class_labels env). l \<noteq> []"
    and "\<forall>l\<in>set (class_labels env). print_error env l = None"
  shows "\<exists>label c. fst (predict env s req)
                       = Inr (JObj [(''prediction'', JStr label), (''confidence'', JFloat (Finite c))], 200)
                   \<and> label \<noteq> [] \<and> 0 \<le> c \<and> c \<le> 1"
proof -
  have "ps \<noteq> []"
    using assms(4) by (auto simp: is_prob_vector_def)
  then obtain i where top: "np_argmax (map Finite ps) = Inr i"
    by (cases ps) auto
  have i: "i < length ps"
    using np_argmax_in_range [OF top] by simp
  have ok: "shape (normalize_tensor a) = expected_shape"
    using assms(2) by (rule normalize_expected)
  have prt: "print_error env (resolve_label (class_labels env) i) = None"
    using assms(6) by (rule resolve_label_printed)
  have "ps ! i \<in> set ps"
    using i by simp
  then have "0 \<le> ps ! i \<and> ps ! i \<le> 1"
    using assms(4) by (simp add: is_prob_vector_def list_all_iff)
  moreover have "resolve_label (class_labels env) i \<noteq> []"
    using assms(5) by (rule resolve_label_nonempty)
  ultimately show ?thesis
    using i by (simp add: predict_success [OF assms(1) ok assms(3) top prt])
qed

text \<open>The amended C1 at the all-zero (160,160,3) image with the labels A, B, C.\<close>

theorem C1_predict_success_witness:
  "\<exists>label c. fst (predict (example_env [''A'', ''B'', ''C''] (Inr [map Finite [0.1, 0.7, 0.2]]))
                      initial_state (image_request (zeros [160, 160, 3])))
                = Inr (JObj [(''prediction'', JStr label), (''confidence'', JFloat (Finite c))], 200)
              \<and> label \<noteq> [] \<and> 0 \<le> c \<and> c \<le> 1"
proof -
  let ?env = "example_env [''A'', ''B'', ''C''] (Inr [map Finite [0.1, 0.7, 0.2]])"
  obtain a where img: "image_array ?env (image_request (zeros [160, 160, 3])) = Inr a"
    and shp: "shape a = [160, 160, 3]"
    using image_array_zeros [of "[160, 160, 3]"] by auto
  have shp': "shape a = [1, 160, 160, 3] \<or> shape a = [160, 160, 3]"
    using shp by simp
  have mdl: "model_predict ?env (model_state initial_state) (normalize_tensor a)
               = (Inr (map Finite [0.1, 0.7, 0.2] # []), 1)"
    by (simp add: example_env_def initial_state_def)
  have pv: "is_prob_vector [0.1, 0.7, 0.2]"
    by (simp add: is_prob_vector_def)
  have lbl: "\<forall>l\<in>set (class_labels ?env). l \<noteq> []"
    by (simp add: example_env_def)
  have prt: "\<forall>l\<in>set (class_labels ?env). print_error ?env l = None"
    by (simp add: example_env_prints)
  show ?thesis
    by (rule C1_predict_success [OF img shp' mdl pv lbl prt])
qed



text \<open>
  Claim C3, as stated: a body without an \<^verbatim>\<open>image\<close> field gets a 400. The handler has no
  check for the field: \<^verbatim>\<open>data['image']\<close> raises \<^verbatim>\<open>KeyError\<close> inside the \<^verbatim>\<open>try\<close>, and line 67
  answers 500. Here the body is the empty object.
\<close>

theorem C3_counterexample:
  "fst (predict (example_env [''A'', ''B'', ''C''] (Inr [map Finite [0.1, 0.7, 0.2]])) initial_state
          \<lparr>get_json = Inr (JObj [])\<rparr>)
     = Inr (JObj [(''error'', JStr (repr_key ''image''))], 500)"
proof -
  let ?env = "example_env [''A'', ''B'', ''C''] (Inr [map Finite [0.1, 0.7, 0.2]])"
  have "image_array ?env \<lparr>get_json = Inr (JObj [])\<rparr> = Inl (KeyError ''image'')"
    by (simp add: image_array_def)
  from predict_no_image [OF this example_env_prints] show ?thesis
    by simp
qed

text \<open>
  Claim C3, amended: a body without an \<^verbatim>\<open>image\<close> field gets a 500 whose payload is an
  \<^verbatim>\<open>error\<close> string, the text of the exception the subscript raised, and never a success
  payload; for an object without the key the message is the quoted key.
\<close>

theorem C3_missing_image_500:
  assumes "get_json req = Inr data"
    and "\<not> has_image data"
  shows "(\<exists>e. getitem_key data ''image'' = Inl e
             \<and> fst (predict env s req) = Inr (JObj [(''error'', JStr (str_exn e))], 500))
         \<and> (\<forall>kvs. data = JObj kvs \<longrightarrow>
               fst (predict env s req) = Inr (JObj [(''error'', JStr (repr_key ''image''))], 500))"
proof -
  obtain e where e: "getitem_key data ''image'' = Inl e"
    using getitem_key_no_image [OF assms(2)] by blast
  have img: "image_array env req = Inl e"
    by (simp add: image_array_def assms(1) e)
  have prt: "print_error env (str_exn e) = None"
    using getitem_key_image_ascii [OF e] by (rule print_error_ascii)
  have r: "fst (predict env s req) = Inr (JObj [(''error'', JStr (str_exn e))], 500)"
    by (simp add: predict_no_image [OF img prt])
  have "\<forall>kvs. data = JObj kvs \<longrightarrow> e = KeyError ''image''"
    using e by (auto split: option.splits)
  with e r show ?thesis by auto
qed

text \<open>
  The amended C3 at a body whose only field is named \<^verbatim>\<open>frame\<close>, on a console that encodes
  ASCII only: the message is the key between apostrophes.
\<close>

theorem C3_missing_image_500_witness:
  "fst (predict ((example_env [''A'', ''B'', ''C''] (Inr [map Finite [0.1, 0.7, 0.2]]))
                   \<lparr>stdout_error := ascii_console\<rparr>) initial_state
          \<lparr>get_json = Inr (JObj [(''frame'', zeros [160, 160, 3])])\<rparr>)
     = Inr (JObj [(''error'', JStr ([CHR 0x27] @ ''image'' @ [CHR 0x27]))], 500)"
proof -
  let ?req = "\<lparr>get_json = Inr (JObj [(''frame'', zeros [160, 160, 3])])\<rparr>"
  have body: "get_json ?req = Inr (JObj [(''frame'', zeros [160, 160, 3])])"
    by simp
  have none: "\<not> has_image (JObj [(''frame'', zeros [160, 160, 3])])"
    by simp
  show ?thesis
    using C3_missing_image_500 [OF body none] by (simp add: repr_key_image)
qed

text \<open>
  Claim C4, as stated: for every model output vector the handler takes the index of the
  maximum score and returns the score at that index. \<^verbatim>\<open>np.argmax\<close> takes the first NaN of a
  vector that holds one, and the handler checks neither for NaN nor for an empty vector.
  Here the model returns (0.1, NaN, 0.9): the response names the label of index 1 with the
  confidence NaN, while the maximum score 0.9 stands at index 2.
\<close>

theorem C4_counterexample:
  "fst (predict (example_env [''A'', ''B'', ''C''] (Inr [[Finite 0.1, NaN, Finite 0.9]])) initial_state
          (image_request (zeros [160, 160, 3])))
     = Inr (JObj [(''prediction'', JStr ''B''), (''confidence'', JFloat NaN)], 200)
   \<and> \<not> float_le (Finite 0.9) NaN"
proof -
  let ?env = "example_env [''A'', ''B'', ''C''] (Inr [[Finite 0.1, NaN, Finite 0.9]])"
  obtain a where img: "image_array ?env (image_request (zeros [160, 160, 3])) = Inr a"
    and shp: "shape a = [160, 160, 3]"
    using image_array_zeros [of "[160, 160, 3]"] by auto
  have ok: "shape (normalize_tensor a) = expected_shape"
    using shp by (simp add: normalize_expected)
  have mdl: "model_predict ?env (model_state initial_state) (normalize_tensor a)
               = (Inr ([Finite 0.1, NaN, Finite 0.9] # []), 1)"
    by (simp add: example_env_def initial_state_def)
  have top: "np_argmax [Finite 0.1, NaN, Finite 0.9] = Inr 1"
    by simp
  have lbl: "resolve_label (class_labels ?env) 1 = ''B''"
    by (simp add: resolve_label_def example_env_def)
  have prt: "print_error ?env (resolve_label (class_labels ?env) 1) = None"
    by (rule example_env_prints)
  show ?thesis
    using predict_success [OF img ok mdl top prt, unfolded lbl] by simp
qed

text \<open>
  Claim C4, amended: for a model output vector with at least one score and no NaN, the
  handler takes the index of the largest score, the lowest such index on a tie, which is
  what \<^verbatim>\<open>np.argmax\<close> computes; and when the console can encode the label of that index, the
  response is a 200 whose \<^verbatim>\<open>confidence\<close> is the score at that index, unchanged.
\<close>

theorem C4_top_index_and_confidence:
  assumes "image_array env req = Inr a"
    and "shape (normalize_tensor a) = expected_shape"
    and "model_predict env (model_state s) (normalize_tensor a) = (Inr (row # rest), m)"
    and "row \<noteq> []"
    and "NaN \<notin> set row"
  shows "\<exists>i. np_argmax row = Inr i
             \<and> i < length row
             \<and> (\<forall>j<length row. float_le (row ! j) (row ! i))
             \<and> (\<forall>j<i. \<not> float_le (row ! i) (row ! j))
             \<and> (print_error env (resolve_label (class_labels env) i) = None \<longrightarrow>
                  fst (predict env s req)
                    = Inr (JObj [(''prediction'', JStr (resolve_label (class_labels env) i)),
                                 (''confidence'', JFloat (row ! i))], 200))"
proof -
  obtain i where top: "np_argmax row = Inr i" and i: "i < length row"
    and mx: "\<forall>j<length row. float_le (row ! j) (row ! i)"
    and low: "\<forall>j<i. \<not> float_le (row ! i) (row ! j)"
    using np_argmax_first_maximum [OF assms(4,5)] by blast
  have r: "print_error env (resolve_label (class_labels env) i) = None \<longrightarrow>
           fst (predict env s req)
             = Inr (JObj [(''prediction'', JStr (resolve_label (class_labels env) i)),
                          (''confidence'', JFloat (row ! i))], 200)"
  proof
    assume "print_error env (resolve_label (class_labels env) i) = None"
    from predict_success [OF assms(1-3) top this] show "fst (predict env s req)
             = Inr (JObj [(''prediction'', JStr (resolve_label (class_labels env) i)),
                          (''confidence'', JFloat (row ! i))], 200)"
      by simp
  qed
  show ?thesis
    by (rule exI [of _ i]) (intro conjI top i mx low r)
qed

text \<open>
  The amended C4 at the all-zero (160,160,3) image and the scores (0.2, 0.4, 0.4): the tie
  goes to index 1.
\<close>

theorem C4_top_index_and_confidence_witness:
  "fst (predict (example_env [''A'', ''B'', ''C''] (Inr [[Finite 0.2, Finite 0.4, Finite 0.4]]))
          initial_state (image_request (zeros [160, 160, 3])))
     = Inr (JObj [(''prediction'', JStr ''B''), (''confidence'', JFloat (Finite 0.4))], 200)"
proof -
  let ?env = "example_env [''A'', ''B'', ''C''] (Inr [[Finite 0.2, Finite 0.4, Finite 0.4]])"
  let ?row = "[Finite 0.2, Finite 0.4, Finite 0.4]"
  obtain a where img: "image_array ?env (image_request (zeros [160, 160, 3])) = Inr a"
    and shp: "shape a = [160, 160, 3]"
    using image_array_zeros [of "[160, 160, 3]"] by auto
  have ok: "shape (normalize_tensor a) = expected_shape"
    using shp by (simp add: normalize_expected)
  have mdl: "model_predict ?env (model_state initial_state) (normalize_tensor a)
               = (Inr (?row # []), 1)"
    by (simp add: example_env_def initial_state_def)
  have ne: "?row \<noteq> []"
    by simp
  have nn: "NaN \<notin> set ?row"
    by simp
  from C4_top_index_and_confidence [OF img ok mdl ne nn]
  obtain i where top: "np_argmax ?row = Inr i"
    and r: "print_error ?env (resolve_label (class_labels ?env) i) = None \<longrightarrow>
            fst (predict ?env initial_state (image_request (zeros [160, 160, 3])))
              = Inr (JObj [(''prediction'', JStr (resolve_label (class_labels ?env) i)),
                           (''confidence'', JFloat (?row ! i))], 200)"
    by (elim exE conjE)
  have one: "np_argmax ?row = Inr 1"
    by simp
  have i: "i = 1"
    using top unfolding one by simp
  have lbl: "resolve_label (class_labels ?env) 1 = ''B''"
    by (simp add: resolve_label_def example_env_def)
  have "fst (predict ?env initial_state (image_request (zeros [160, 160, 3])))
          = Inr (JObj [(''prediction'', JStr (resolve_label (class_labels ?env) 1)),
                       (''confidence'', JFloat (?row ! 1))], 200)"
    using r example_env_prints unfolding i by (rule mp)
  then show ?thesis
    unfolding lbl by simp
qed

text \<open>
  Claim C5: when the top index is at or past the end of the label table, the label is
  \<^verbatim>\<open>UNKNOWN_CLASS_\<close> followed by the index in decimal, and the response is still a 200. The
  digits after the 14 characters of the prefix read back as the index.
\<close>

theorem C5_unknown_class:
  assumes "image_array env req = Inr a"
    and "shape (normalize_tensor a) = expected_shape"
    and "model_predict env (model_state s) (normalize_tensor a) = (Inr (row # rest), m)"
    and "np_argmax row = Inr i"
    and "i \<ge> length (class_labels env)"
  shows "\<exists>label. fst (predict env s req)
                    = Inr (JObj [(''prediction'', JStr label), (''confidence'', JFloat (row ! i))], 200)
                 \<and> label = ''UNKNOWN_CLASS_'' @ show_nat i
                 \<and> take 14 label = ''UNKNOWN_CLASS_''
                 \<and> read_nat (drop 14 label) = i"
proof -
  have lbl: "resolve_label (class_labels env) i = ''UNKNOWN_CLASS_'' @ show_nat i"
    using assms(5) by (simp add: resolve_label_def)
  have "list_all is_ascii (''UNKNOWN_CLASS_'' @ show_nat i)"
    using show_nat_ascii [of i] by (simp add: is_ascii_def)
  then have prt: "print_error env (resolve_label (class_labels env) i) = None"
    unfolding lbl by (rule print_error_ascii)
  show ?thesis
    using predict_success [OF assms(1-4) prt] by (simp add: lbl read_nat_show_nat)
qed

text \<open>
  C5 with a label table of three entries and thirteen scores, the top one at index 12, on
  a console that encodes ASCII only.
\<close>

theorem C5_unknown_class_witness:
  "fst (predict ((example_env [''A'', ''B'', ''C'']
                    (Inr [map Finite [0.05, 0.05, 0.05, 0.05, 0.05, 0.05, 0.05, 0.05, 0.05, 0.05,
                                      0.05, 0.05, 0.4]]))
                   \<lparr>stdout_error := ascii_console\<rparr>) initial_state
          (image_request (zeros [160, 160, 3])))
     = Inr (JObj [(''prediction'', JStr ''UNKNOWN_CLASS_12''), (''confidence'', JFloat (Finite 0.4))],
            200)"
proof -
  let ?row = "map Finite [0.05, 0.05, 0.05, 0.05, 0.05, 0.05, 0.05, 0.05, 0.05, 0.05, 0.05, 0.05, 0.4]"
  let ?env = "(example_env [''A'', ''B'', ''C''] (Inr [?row]))\<lparr>stdout_error := ascii_console\<rparr>"
  obtain a where img: "image_array ?env (image_request (zeros [160, 160, 3])) = Inr a"
    and shp: "shape a = [160, 160, 3]"
    using image_array_zeros [of "[160, 160, 3]"] by (auto simp: image_array_console_free)
  have ok: "shape (normalize_tensor a) = expected_shape"
    using shp by (simp add: normalize_expected)
  have mdl: "model_predict ?env (model_state initial_state) (normalize_tensor a) = (Inr (?row # []), 1)"
    by (simp add: example_env_def initial_state_def)
  have top: "np_argmax ?row = Inr 12"
    by simp
  have past: "12 \<ge> length (class_labels ?env)"
    by (simp add: example_env_def)
  have "show_nat 12 = ''12''"
    by (simp add: show_nat.simps digit_char_def)
  then show ?thesis
    using C5_unknown_class [OF img ok mdl top past] by auto
qed

text \<open>
  Claim C6: the normaliser puts a leading axis of size 1 before the shape of a 3-dimensional
  array and leaves a 4-dimensional array as it is, and the comparison with (1, 160, 160, 3)
  that follows sees the normalised shape: a rejected 3-dimensional array is reported with
  the added axis, a rejected 4-dimensional array with its own shape.
\<close>

theorem C6_normalize:
  "(length (shape a) = 3 \<longrightarrow> normalize_tensor a = a\<lparr>shape := 1 # shape a\<rparr>)
   \<and> (length (shape a) = 4 \<longrightarrow> normalize_tensor a = a)
   \<and> (image_array env req = Inr a \<and> length (shape a) = 3 \<and> shape a \<noteq> [160, 160, 3] \<longrightarrow>
        fst (predict env s req) = Inr (invalid_shape_response (1 # shape a)))
   \<and> (image_array env req = Inr a \<and> length (shape a) = 4 \<and> shape a \<noteq> [1, 160, 160, 3] \<longrightarrow>
        fst (predict env s req) = Inr (invalid_shape_response (shape a)))"
proof (intro conjI impI)
  assume "length (shape a) = 3"
  then show "normalize_tensor a = a\<lparr>shape := 1 # shape a\<rparr>"
    by (simp add: normalize_tensor_def expand_dims0_def)
next
  assume "length (shape a) = 4"
  then show "normalize_tensor a = a"
    by (simp add: normalize_tensor_def)
next
  assume h: "image_array env req = Inr a \<and> length (shape a) = 3 \<and> shape a \<noteq> [160, 160, 3]"
  then have n: "shape (normalize_tensor a) = 1 # shape a"
    by (simp add: normalize_tensor_def expand_dims0_def)
  with h have "shape (normalize_tensor a) \<noteq> expected_shape"
    by (simp add: expected_shape_def)
  with h n show "fst (predict env s req) = Inr (invalid_shape_response (1 # shape a))"
    by (simp add: predict_invalid_shape)
next
  assume h: "image_array env req = Inr a \<and> length (shape a) = 4 \<and> shape a \<noteq> [1, 160, 160, 3]"
  then have n: "normalize_tensor a = a"
    by (simp add: normalize_tensor_def)
  with h have "shape (normalize_tensor a) \<noteq> expected_shape"
    by (simp add: expected_shape_def)
  with h n show "fst (predict env s req) = Inr (invalid_shape_response (shape a))"
    using predict_invalid_shape [of env req a s] by simp
qed

text \<open>
  C6 at the all-zero images of shape (160, 160, 4) and (2, 160, 160, 3): the first is
  reported as (1, 160, 160, 4), the second as it is.
\<close>

theorem C6_normalize_witness:
  "fst (predict (example_env [''A'', ''B'', ''C''] (Inr [map Finite [0.1, 0.7, 0.2]])) initial_state
          (image_request (zeros [160, 160, 4])))
     = Inr (invalid_shape_response [1, 160, 160, 4])
   \<and> fst (predict (example_env [''A'', ''B'', ''C''] (Inr [map Finite [0.1, 0.7, 0.2]])) initial_state
          (image_request (zeros [2, 160, 160, 3])))
     = Inr (invalid_shape_response [2, 160, 160, 3])"
proof -
  let ?env = "example_env [''A'', ''B'', ''C''] (Inr [map Finite [0.1, 0.7, 0.2]])"
  obtain a where img: "image_array ?env (image_request (zeros [160, 160, 4])) = Inr a"
    and shp: "shape a = [160, 160, 4]"
    using image_array_zeros [of "[160, 160, 4]"] by auto
  obtain b where img': "image_array ?env (image_request (zeros [2, 160, 160, 3])) = Inr b"
    and shp': "shape b = [2, 160, 160, 3]"
    using image_array_zeros [of "[2, 160, 160, 3]"] by auto
  have "fst (predict ?env initial_state (image_request (zeros [160, 160, 4])))
          = Inr (invalid_shape_response (1 # shape a))"
    using C6_normalize [of a ?env "image_request (zeros [160, 160, 4])" initial_state] img shp
    by simp
  moreover have "fst (predict ?env initial_state (image_request (zeros [2, 160, 160, 3])))
          = Inr (invalid_shape_response (shape b))"
    using C6_normalize [of b ?env "image_request (zeros [2, 160, 160, 3])" initial_state] img' shp'
    by simp
  ultimately show ?thesis
    by (simp add: shp shp')
qed

text \<open>
  Claim C7 asks that a raising model call always ends in a 500 with an \<^verbatim>\<open>error\<close> payload that
  carries the text of the exception. The handler prints that text at line 64 before it
  returns, in the \<^verbatim>\<open>except\<close> block and outside any \<^verbatim>\<open>try\<close>. Here the model raises with the
  message \<^verbatim>\<open>caf\<close> followed by the character 233 and the console encodes ASCII only: the
  \<^verbatim>\<open>print\<close> raises, the exception leaves the handler, and no payload is returned.
\<close>

theorem C7_error_print_raises:
  "fst (predict ((example_env [''A'', ''B'', ''C''] (Inl (OtherError (''caf'' @ [CHR 0xE9]))))
                   \<lparr>stdout_error := ascii_console\<rparr>) initial_state
          (image_request (zeros [160, 160, 3])))
     = Inl (UnicodeEncodeError ''ordinal not in range(128)'')"
proof -
  let ?env = "(example_env [''A'', ''B'', ''C''] (Inl (OtherError (''caf'' @ [CHR 0xE9]))))
                \<lparr>stdout_error := ascii_console\<rparr>"
  obtain a where img: "image_array ?env (image_request (zeros [160, 160, 3])) = Inr a"
    and shp: "shape a = [160, 160, 3]"
    using image_array_zeros [of "[160, 160, 3]"] by (auto simp: image_array_console_free)
  have ok: "shape (normalize_tensor a) = expected_shape"
    using shp by (simp add: normalize_expected)
  have mdl: "model_predict ?env (model_state initial_state) (normalize_tensor a)
               = (Inl (OtherError (''caf'' @ [CHR 0xE9])), 1)"
    by (simp add: example_env_def initial_state_def)
  have prt: "print_error ?env (str_exn (OtherError (''caf'' @ [CHR 0xE9])))
               = Some (UnicodeEncodeError ''ordinal not in range(128)'')"
    by (simp add: print_error_def is_ascii_def ascii_console_def example_env_def)
  show ?thesis
    using predict_model_error_unprinted [OF img ok mdl prt] by simp
qed

text \<open>
  Claim C8: with a model whose outcome is a function of its input tensor alone, two
  invocations whose requests carry the same tensor get the same response, \<^verbatim>\<open>prediction\<close>
  and \<^verbatim>\<open>confidence\<close> included, whatever states the server is in; in particular a second
  invocation with the same request, run in the state the first one left.
\<close>

theorem C8_same_tensor_same_response:
  assumes "\<forall>m m' x. fst (model_predict env m x) = fst (model_predict env m' x)"
    and "image_array env req' = image_array env req"
  shows "fst (predict env s' req') = fst (predict env s req)
         \<and> fst (predict env (snd (predict env s req)) req') = fst (predict env s req)"
  using predict_response_tensor_only [OF assms] by simp

text \<open>
  C8 with the model of the example environment, which counts its calls and answers all of
  them alike: the all-zero (160,160,3) image sent twice, the second time with one more
  field in the body and to the server as the first call left it.
\<close>

theorem C8_same_tensor_same_response_witness:
  "fst (predict (example_env [''A'', ''B'', ''C''] (Inr [map Finite [0.1, 0.7, 0.2]]))
          (snd (predict (example_env [''A'', ''B'', ''C''] (Inr [map Finite [0.1, 0.7, 0.2]]))
                  initial_state (image_request (zeros [160, 160, 3]))))
          \<lparr>get_json = Inr (JObj [(''image'', zeros [160, 160, 3]), (''frame'', JInt 2)])\<rparr>)
     = fst (predict (example_env [''A'', ''B'', ''C''] (Inr [map Finite [0.1, 0.7, 0.2]])) initial_state
              (image_request (zeros [160, 160, 3])))"
proof -
  let ?env = "example_env [''A'', ''B'', ''C''] (Inr [map Finite [0.1, 0.7, 0.2]])"
  let ?req' = "\<lparr>get_json = Inr (JObj [(''image'', zeros [160, 160, 3]), (''frame'', JInt 2)])\<rparr>"
  have det: "\<forall>m m' x. fst (model_predict ?env m x) = fst (model_predict ?env m' x)"
    by (simp add: example_env_def)
  have same: "image_array ?env ?req' = image_array ?env (image_request (zeros [160, 160, 3]))"
    by (simp add: image_array_def image_request_def)
  show ?thesis
    by (rule conjunct2 [OF C8_same_tensor_same_response [OF det same]])
qed

text \<open>
  Claim C9: whatever calls the server has handled before, \<^verbatim>\<open>GET /health\<close> answers 200 with
  the payload \<^verbatim>\<open>{"status": "ok", "model_loaded": true}\<close> and leaves the state as it is.
\<close>

theorem C9_health_ok:
  "handle env (serve env s calls) GetHealth
     = (Inr (JObj [(''status'', JStr ''ok''), (''model_loaded'', JBool True)], 200), serve env s calls)"
  by (simp add: health_def)



end
